theory Spec2Isabelle
  imports Complex_Main "HOL-Library.Char_ord" "HOL-Library.List_Lexorder"
begin

section \<open>Data model of dashboard/app.py\<close>

text \<open>
  The dashboard is one script over an in-memory table. A table is a list of rows in
  index order. The two coordinate columns (\<open>long_col\<close> is the column \<open>long_\<close>) are
  floats that may be missing, written \<open>real option\<close> with \<open>None\<close> for NaN; the script
  only copies and tests them.
\<close>

subsection \<open>Integers\<close>

text \<open>
  The count columns are pandas int64 columns read from the CSV. A cell is written as an
  \<open>int\<close> in the int64 range; a sum of a column (\<open>Series.sum\<close>, \<open>groupby(...).sum()\<close>) and
  a difference of two numpy int64 scalars are taken modulo \<open>2 ^ 64\<close>, as numpy does, and
  read as signed.
\<close>

definition wrap64 :: "int \<Rightarrow> int" where
  "wrap64 x = (x + 2 ^ 63) mod 2 ^ 64 - 2 ^ 63"

definition sum_int64 :: "int list \<Rightarrow> int" where
  "sum_int64 xs = wrap64 (sum_list xs)"

subsection \<open>Floating point\<close>

text \<open>
  A finite float64 value is written as the real number it stands for; the values that
  arise below are finite, or NaN where a rolling window is not yet full. The KPI and growth
  percentages are single quotients shown with two decimals and are written as real
  quotients. The rebound index compares a quotient of two rolling means with thresholds,
  where the last bit of the float64 result decides the verdict; its three float64
  operations belong to numpy and pandas and are parameters of the model, so that what is
  proved holds for the float64 arithmetic of the library, whatever its rounding:
  \<^item> \<open>f_sub cur prev\<close>, the float64 cell that \<open>Series.diff()\<close> stores for two
    neighbouring int64 cells;
  \<^item> \<open>f_rolling_mean w xs i\<close>, the float64 cell of \<open>xs.rolling(window=w).mean()\<close> at a
    position \<open>i\<close> whose window is full;
  \<^item> \<open>f_div a b\<close>, the float64 quotient of two float64 values.
\<close>

record float64_ops =
  f_sub :: "int \<Rightarrow> int \<Rightarrow> real"
  f_rolling_mean :: "nat \<Rightarrow> real list \<Rightarrow> nat \<Rightarrow> real"
  f_div :: "real \<Rightarrow> real \<Rightarrow> real"

text \<open>
  The Python literal \<open>1.2\<close> is the float64 value nearest to 12/10, which is
  \<open>5404319552844595 / 2 ^ 52\<close>; the literal \<open>1.0\<close> is exact.
\<close>

definition py_float_1_2 :: real where
  "py_float_1_2 = 5404319552844595 / 4503599627370496"

subsection \<open>Tables\<close>

datatype error = NameError | ZeroDivisionError | IndexError | ResolverError

text \<open>A pandas timestamp is a count of nanoseconds; \<open>.dt.date\<close> keeps the day.\<close>

type_synonym timestamp = int
type_synonym date = int

definition dt_date :: "timestamp \<Rightarrow> date" where
  "dt_date t = t div 86400000000000"

record row =
  country_region :: string
  file_date :: timestamp
  confirmed :: int
  deaths :: int
  recovered :: int
  active :: int
  lat :: "real option"
  long_col :: "real option"
  Continent :: string

text \<open>The sidebar widgets (lines 76-91): two multiselect lists and a date range.\<close>

record selection =
  selected_continents :: "string list"
  selected_countries :: "string list"
  start_date :: date
  end_date :: date

section \<open>Continent classification (lines 12-36)\<close>

definition corrections :: "(string \<times> string) list" where
  "corrections =
    [(''US'', ''United States''), (''Korea, South'', ''South Korea''), (''Taiwan*'', ''Taiwan''),
     (''Burma'', ''Myanmar''), (''Congo (Kinshasa)'', ''Congo''), (''Congo (Brazzaville)'', ''Congo''),
     (''Cote d'Ivoire'', ''Ivory Coast''), (''West Bank and Gaza'', ''Israel''),
     (''Russia'', ''Russian Federation''), (''Vietnam'', ''Viet Nam''),
     (''Laos'', ''Lao People's Democratic Republic''),
     (''Syria'', ''Syrian Arab Republic''), (''Iran'', ''Iran, Islamic Republic of''),
     (''Tanzania'', ''Tanzania, United Republic of''),
     (''Venezuela'', ''Venezuela, Bolivarian Republic of''),
     (''Bolivia'', ''Bolivia, Plurinational State of''), (''Brunei'', ''Brunei Darussalam''),
     (''United Kingdom'', ''United Kingdom''), (''France'', ''France'')]"

definition continents :: "(string \<times> string) list" where
  "continents =
    [(''NA'', ''North America''), (''SA'', ''South America''), (''AS'', ''Asia''),
     (''OC'', ''Oceania''), (''EU'', ''Europe''), (''AF'', ''Africa'')]"

text \<open>\<open>dict.get(key, default)\<close>.\<close>

definition dict_get :: "('k \<times> 'v) list \<Rightarrow> 'k \<Rightarrow> 'v \<Rightarrow> 'v" where
  "dict_get d k dflt = (case map_of d k of Some v \<Rightarrow> v | None \<Rightarrow> dflt)"

text \<open>
  The two resolvers \<open>pc.country_name_to_country_alpha2\<close> and
  \<open>pc.country_alpha2_to_continent_code\<close> belong to the library pycountry_convert and
  are parameters here: each returns a string or raises. The body of \<open>get_continent\<close>
  sits in \<open>try\<close> with a bare \<open>except\<close>, so every raise becomes the label Others.
\<close>

type_synonym resolver = "string \<Rightarrow> error + string"

definition get_continent :: "resolver \<Rightarrow> resolver \<Rightarrow> string \<Rightarrow> string" where
  "get_continent country_name_to_country_alpha2 country_alpha2_to_continent_code country_name =
    (case country_name_to_country_alpha2 (dict_get corrections country_name country_name) of
       Inl e \<Rightarrow> ''Others''
     | Inr country_alpha2 \<Rightarrow>
        (case country_alpha2_to_continent_code country_alpha2 of
           Inl e \<Rightarrow> ''Others''
         | Inr continent_code \<Rightarrow> dict_get continents continent_code ''Others''))"

section \<open>Coordinate overrides (lines 38-45)\<close>

definition COUNTRY_COORDS :: "(string \<times> real \<times> real) list" where
  "COUNTRY_COORDS =
    [(''France'', 46.2276, 2.2137),
     (''United Kingdom'', 55.3781, - 3.4360),
     (''Denmark'', 56.2639, 9.5018),
     (''Netherlands'', 52.1326, 5.2913),
     (''US'', 37.0902, - 95.7129),
     (''United States'', 37.0902, - 95.7129)]"

section \<open>Filtering (lines 94-103)\<close>

text \<open>\<open>df[df[col].isin(values)]\<close> and the truth value of a Python list.\<close>

definition isin :: "'a \<Rightarrow> 'a list \<Rightarrow> bool" where
  "isin x values = (x \<in> set values)"

definition df_filtered :: "selection \<Rightarrow> row list \<Rightarrow> row list" where
  "df_filtered sel df =
    (let by_date = filter (\<lambda>r. dt_date (file_date r) \<ge> start_date sel
                              \<and> dt_date (file_date r) \<le> end_date sel) df;
         by_continent = (if selected_continents sel \<noteq> []
                         then filter (\<lambda>r. isin (Continent r) (selected_continents sel)) by_date
                         else by_date)
     in if selected_countries sel \<noteq> []
        then filter (\<lambda>r. isin (country_region r) (selected_countries sel)) by_continent
        else by_continent)"

definition df_last_day :: "selection \<Rightarrow> row list \<Rightarrow> row list" where
  "df_last_day sel filtered = filter (\<lambda>r. dt_date (file_date r) = end_date sel) filtered"

section \<open>KPIs (lines 105-113)\<close>

text \<open>
  Division is written as a fallible operation, so that a division by zero is a visible
  outcome of the model rather than HOL's \<open>x / 0 = 0\<close>.
\<close>

definition truediv :: "real \<Rightarrow> real \<Rightarrow> error + real" where
  "truediv a b = (if b = 0 then Inl ZeroDivisionError else Inr (a / b))"

definition kpi_confirmed :: "row list \<Rightarrow> int" where
  "kpi_confirmed last_day = (if last_day \<noteq> [] then sum_int64 (map confirmed last_day) else 0)"

definition kpi_deaths :: "row list \<Rightarrow> int" where
  "kpi_deaths last_day = (if last_day \<noteq> [] then sum_int64 (map deaths last_day) else 0)"

definition fatality_rate :: "int \<Rightarrow> int \<Rightarrow> error + real" where
  "fatality_rate kpi_d kpi_c =
    (if kpi_c > 0
     then (case truediv (real_of_int kpi_d) (real_of_int kpi_c) of
             Inl e \<Rightarrow> Inl e
           | Inr q \<Rightarrow> Inr (q * 100))
     else Inr 0)"

section \<open>Timeline (line 126)\<close>

text \<open>
  \<open>groupby(key)\<close> sorts the distinct keys in ascending order; each group keeps its rows
  in table order.
\<close>

definition groupby_keys :: "('r \<Rightarrow> 'k::linorder) \<Rightarrow> 'r list \<Rightarrow> 'k list" where
  "groupby_keys key df = sort (remdups (map key df))"

definition get_group :: "('r \<Rightarrow> 'k) \<Rightarrow> 'r list \<Rightarrow> 'k \<Rightarrow> 'r list" where
  "get_group key df k = filter (\<lambda>r. key r = k) df"

record tl_row =
  tl_file_date :: timestamp
  tl_confirmed :: int
  tl_deaths :: int
  tl_recovered :: int
  tl_active :: int

definition timeline :: "row list \<Rightarrow> tl_row list" where
  "timeline filtered =
    map (\<lambda>d. let g = get_group file_date filtered d in
              \<lparr>tl_file_date = d,
               tl_confirmed = sum_int64 (map confirmed g),
               tl_deaths = sum_int64 (map deaths g),
               tl_recovered = sum_int64 (map recovered g),
               tl_active = sum_int64 (map active g)\<rparr>)
        (groupby_keys file_date filtered)"

section \<open>Map data (lines 150-173)\<close>

record ct_row =
  ct_country_region :: string
  ct_confirmed :: int
  ct_lat :: "real option"
  ct_long :: "real option"

text \<open>The groupby aggregation \<open>first\<close>: the first value of the group that is not null.\<close>

fun agg_first :: "'a option list \<Rightarrow> 'a option" where
  "agg_first [] = None"
| "agg_first (None # xs) = agg_first xs"
| "agg_first (Some x # xs) = Some x"

text \<open>
  \<open>country_totals\<close> is bound only under \<open>if not df_last_day.empty\<close> (line 150);
  \<open>None\<close> stands for the name never having been bound.
\<close>

definition country_totals :: "row list \<Rightarrow> ct_row list option" where
  "country_totals last_day =
    (if last_day \<noteq> []
     then Some (map (\<lambda>c. let g = get_group country_region last_day c in
                          \<lparr>ct_country_region = c,
                           ct_confirmed = sum_int64 (map confirmed g),
                           ct_lat = agg_first (map lat g),
                           ct_long = agg_first (map long_col g)\<rparr>)
                    (groupby_keys country_region last_day))
     else None)"

text \<open>
  \<open>sort_values(col, ascending=False)\<close>: pandas reverses the rows, sorts ascending and
  reverses the outcome, so rows with equal keys keep their table order under a stable
  sort. (The default quicksort gives no promise on the order of equal keys; nothing proved
  below depends on that order.)
\<close>

definition sort_values_desc :: "('r \<Rightarrow> int) \<Rightarrow> 'r list \<Rightarrow> 'r list" where
  "sort_values_desc key df = rev (sort_key key (rev df))"

definition fix_coords :: "row list \<Rightarrow> ct_row \<Rightarrow> real option \<times> real option" where
  "fix_coords last_day row =
    (case map_of COUNTRY_COORDS (ct_country_region row) of
       Some (la, lo) \<Rightarrow> (Some la, Some lo)
     | None \<Rightarrow>
        (case sort_values_desc confirmed
                (filter (\<lambda>r. country_region r = ct_country_region row) last_day) of
           best_row # rest \<Rightarrow> (lat best_row, long_col best_row)
         | [] \<Rightarrow> (ct_lat row, ct_long row)))"

text \<open>
  Line 170 assigns to each row of \<open>country_totals\<close> the pair that \<open>fix_coords\<close>
  returns for it. It runs at module level, outside the \<open>if\<close> of line 150: it reads
  \<open>country_totals\<close> whether or not the name was bound.
\<close>

definition with_fixed_coords :: "row list \<Rightarrow> ct_row \<Rightarrow> ct_row" where
  "with_fixed_coords last_day row =
     row\<lparr>ct_lat := fst (fix_coords last_day row), ct_long := snd (fix_coords last_day row)\<rparr>"

definition apply_fix_coords :: "row list \<Rightarrow> ct_row list option \<Rightarrow> error + ct_row list" where
  "apply_fix_coords last_day totals =
    (case totals of
       None \<Rightarrow> Inl NameError
     | Some ct \<Rightarrow> Inr (map (with_fixed_coords last_day) ct))"

text \<open>\<open>dropna(subset=["lat", "long_"])\<close>.\<close>

definition dropna :: "ct_row list \<Rightarrow> ct_row list" where
  "dropna ct = filter (\<lambda>row. ct_lat row \<noteq> None \<and> ct_long row \<noteq> None) ct"

definition map_data :: "row list \<Rightarrow> error + ct_row list" where
  "map_data last_day =
    (case apply_fix_coords last_day (country_totals last_day) of
       Inl e \<Rightarrow> Inl e
     | Inr ct \<Rightarrow> Inr (dropna ct))"

section \<open>Conclusions (lines 192-231)\<close>

text \<open>\<open>iloc[i]\<close>: a negative position counts from the end, a position out of range raises.\<close>

definition iloc :: "'a list \<Rightarrow> int \<Rightarrow> error + 'a" where
  "iloc xs i =
    (if 0 \<le> i \<and> i < int (length xs) then Inr (xs ! nat i)
     else if i < 0 \<and> - i \<le> int (length xs) then Inr (xs ! nat (int (length xs) + i))
     else Inl IndexError)"

text \<open>
  Lines 194-200. \<open>start_val\<close> and \<open>end_val\<close> are numpy int64 scalars, so their difference
  wraps.
\<close>

definition growth_rate :: "int \<Rightarrow> int \<Rightarrow> error + real" where
  "growth_rate start_val end_val =
    (if start_val > 0
     then (case truediv (real_of_int (wrap64 (end_val - start_val))) (real_of_int start_val) of
             Inl e \<Rightarrow> Inl e
           | Inr q \<Rightarrow> Inr (q * 100))
     else Inr (if end_val = 0 then 0 else 100))"

text \<open>\<open>Series.diff()\<close> leaves the first position blank; \<open>fillna(0)\<close> fills blanks.\<close>

fun diff :: "float64_ops \<Rightarrow> int list \<Rightarrow> real option list" where
  "diff fp [] = []"
| "diff fp (x # xs) = None # map (\<lambda>(prev, cur). Some (f_sub fp cur prev)) (zip (x # xs) xs)"

definition fillna :: "real \<Rightarrow> real option list \<Rightarrow> real list" where
  "fillna v xs = map (\<lambda>x. case x of None \<Rightarrow> v | Some y \<Rightarrow> y) xs"

text \<open>
  \<open>rolling(window=w).mean()\<close>: blank until \<open>w\<close> values are in the window, then the
  library's mean of the window that ends at the position.
\<close>

definition rolling_mean :: "float64_ops \<Rightarrow> nat \<Rightarrow> real list \<Rightarrow> real option list" where
  "rolling_mean fp w xs =
    map (\<lambda>i. if w \<le> i + 1 then Some (f_rolling_mean fp w xs i) else None) [0..<length xs]"

definition new_cases :: "float64_ops \<Rightarrow> int list \<Rightarrow> real list" where
  "new_cases fp confirmed_col = fillna 0 (diff fp confirmed_col)"

definition avg_7d :: "float64_ops \<Rightarrow> int list \<Rightarrow> real option list" where
  "avg_7d fp confirmed_col = rolling_mean fp 7 (new_cases fp confirmed_col)"

text \<open>
  Line 220. A blank average is NaN: the comparison \<open>NaN > 0\<close> is false, and a NaN
  numerator gives a NaN quotient. The quotient is taken only under the guard.
\<close>

definition float_truediv :: "float64_ops \<Rightarrow> real \<Rightarrow> real \<Rightarrow> error + real" where
  "float_truediv fp a b = (if b = 0 then Inl ZeroDivisionError else Inr (f_div fp a b))"

definition rebound_ratio ::
  "float64_ops \<Rightarrow> real option \<Rightarrow> real option \<Rightarrow> error + real option" where
  "rebound_ratio fp current_week_avg prev_week_avg =
    (case prev_week_avg of
       None \<Rightarrow> Inr (Some 0)
     | Some p \<Rightarrow>
        if p > 0
        then (case current_week_avg of
                None \<Rightarrow> Inr None
              | Some c \<Rightarrow>
                 (case float_truediv fp c p of Inl e \<Rightarrow> Inl e | Inr q \<Rightarrow> Inr (Some q)))
        else Inr (Some 0))"

datatype verdict = ReboundAlert | UpwardTrend | StableOrDeclining

text \<open>Lines 222-227; a comparison with NaN is false.\<close>

definition classify_rebound :: "real option \<Rightarrow> verdict" where
  "classify_rebound ratio =
    (case ratio of
       None \<Rightarrow> StableOrDeclining
     | Some q \<Rightarrow> if q > py_float_1_2 then ReboundAlert
                 else if q > 1 then UpwardTrend
                 else StableOrDeclining)"

datatype rebound = Rebound "real option" verdict | NeedFourteenDays

definition rebound_index :: "float64_ops \<Rightarrow> int list \<Rightarrow> error + rebound" where
  "rebound_index fp confirmed_col =
    (if length confirmed_col \<ge> 14
     then (case iloc (avg_7d fp confirmed_col) (- 1) of
             Inl e \<Rightarrow> Inl e
           | Inr current_week_avg \<Rightarrow>
              (case iloc (avg_7d fp confirmed_col) (- 8) of
                 Inl e \<Rightarrow> Inl e
               | Inr prev_week_avg \<Rightarrow>
                  (case rebound_ratio fp current_week_avg prev_week_avg of
                     Inl e \<Rightarrow> Inl e
                   | Inr ratio \<Rightarrow> Inr (Rebound ratio (classify_rebound ratio)))))
     else Inr NeedFourteenDays)"

text \<open>
  The narrative: either the growth rate with the first and last confirmed totals,
  followed by the rebound paragraph, or the sentence of line 231.
\<close>

datatype conclusion = Conclusion real int int rebound | InsufficientData

definition conclusions :: "float64_ops \<Rightarrow> tl_row list \<Rightarrow> error + conclusion" where
  "conclusions fp tline =
    (if tline \<noteq> [] \<and> length tline > 1
     then (case iloc tline 0 of
             Inl e \<Rightarrow> Inl e
           | Inr first_row \<Rightarrow>
              (case iloc tline (- 1) of
                 Inl e \<Rightarrow> Inl e
               | Inr last_row \<Rightarrow>
                  (case growth_rate (tl_confirmed first_row) (tl_confirmed last_row) of
                     Inl e \<Rightarrow> Inl e
                   | Inr g \<Rightarrow>
                      (case rebound_index fp (map tl_confirmed tline) of
                         Inl e \<Rightarrow> Inl e
                       | Inr rb \<Rightarrow>
                          Inr (Conclusion g (tl_confirmed first_row) (tl_confirmed last_row) rb)))))
     else Inr InsufficientData)"

section \<open>Ranking (lines 237-249)\<close>

text \<open>The groupby aggregation \<open>max\<close> over a group, which is never empty.\<close>

definition agg_max :: "int list \<Rightarrow> int" where
  "agg_max xs = fold max (tl xs) (hd xs)"

text \<open>
  \<open>groupby("country_region")["active"].max().sort_values(ascending=False)\<close>: one entry
  per country with its largest active count, in descending order of that count.
\<close>

definition ranked :: "row list \<Rightarrow> (string \<times> int) list" where
  "ranked last_day =
    sort_values_desc snd
      (map (\<lambda>c. (c, agg_max (map active (get_group country_region last_day c))))
           (groupby_keys country_region last_day))"

text \<open>\<open>head(10)\<close> of it; \<open>None\<close> is the branch of line 249, where no ranking is computed.\<close>

definition top_active :: "row list \<Rightarrow> (string \<times> int) list option" where
  "top_active last_day = (if last_day \<noteq> [] then Some (take 10 (ranked last_day)) else None)"

section \<open>The page\<close>

text \<open>
  Each view either draws its chart from a table or shows its placeholder message. The
  script runs top to bottom; an exception ends the run, and nothing after it is drawn.
\<close>

datatype 'a view = Chart 'a | Placeholder

record page =
  page_kpi_confirmed :: int
  page_kpi_deaths :: int
  page_fatality_rate :: real
  page_timeline :: "tl_row list view"
  page_map :: "ct_row list view"
  page_conclusion :: conclusion
  page_ranking :: "(string \<times> int) list view"

definition view_of :: "'a list \<Rightarrow> 'a list view" where
  "view_of table = (if table \<noteq> [] then Chart table else Placeholder)"

definition app :: "float64_ops \<Rightarrow> selection \<Rightarrow> row list \<Rightarrow> error + page" where
  "app fp sel df =
    (let filtered = df_filtered sel df;
         last_day = df_last_day sel filtered;
         kpi_c = kpi_confirmed last_day;
         kpi_d = kpi_deaths last_day
     in case fatality_rate kpi_d kpi_c of
          Inl e \<Rightarrow> Inl e
        | Inr rate \<Rightarrow>
           (case map_data last_day of
              Inl e \<Rightarrow> Inl e
            | Inr md \<Rightarrow>
               (case conclusions fp (timeline filtered) of
                  Inl e \<Rightarrow> Inl e
                | Inr concl \<Rightarrow>
                   Inr \<lparr>page_kpi_confirmed = kpi_c,
                        page_kpi_deaths = kpi_d,
                        page_fatality_rate = rate,
                        page_timeline = view_of (timeline filtered),
                        page_map = view_of md,
                        page_conclusion = concl,
                        page_ranking = (case top_active last_day of
                                          None \<Rightarrow> Placeholder
                                        | Some ranking \<Rightarrow> view_of ranking)\<rparr>)))"

section \<open>Notions used to state the properties\<close>

text \<open>The seven labels a country can be classified under.\<close>

definition continent_labels :: "string list" where
  "continent_labels =
    [''North America'', ''South America'', ''Asia'', ''Oceania'', ''Europe'', ''Africa'',
     ''Others'']"


text \<open>
  Day-over-day new cases of a confirmed column, zero at the first position, as the
  library's float64 difference.
\<close>

definition daily_new :: "float64_ops \<Rightarrow> int list \<Rightarrow> nat \<Rightarrow> real" where
  "daily_new fp cs i = (if i = 0 then 0 else f_sub fp (cs ! i) (cs ! (i - 1)))"

text \<open>
  The rebound ratio of a confirmed column: the library's 7-day rolling mean of the new
  cases at the last position divided by the one eight positions from the end, taken as 0
  unless the divisor is positive.
\<close>

definition week_mean :: "float64_ops \<Rightarrow> int list \<Rightarrow> nat \<Rightarrow> real" where
  "week_mean fp cs i = f_rolling_mean fp 7 (map (daily_new fp cs) [0..<length cs]) i"

definition guarded_ratio :: "float64_ops \<Rightarrow> int list \<Rightarrow> real" where
  "guarded_ratio fp cs =
    (if week_mean fp cs (length cs - 8) > 0
     then f_div fp (week_mean fp cs (length cs - 1)) (week_mean fp cs (length cs - 8))
     else 0)"

text \<open>
  A finite float64 value: an integer of magnitude below \<open>2 ^ 53\<close> scaled by a power
  of two.
\<close>

definition is_float64 :: "real \<Rightarrow> bool" where
  "is_float64 x =
    (\<exists>m a b. \<bar>m\<bar> < 2 ^ 53 \<and> x = real_of_int m * 2 ^ a / 2 ^ b)"

text \<open>
  Arithmetic without rounding, for instances on which every intermediate value is a
  float64 value and the float64 operations are therefore exact.
\<close>

definition exact_ops :: float64_ops where
  "exact_ops =
    \<lparr>f_sub = (\<lambda>cur prev. real_of_int (cur - prev)),
     f_rolling_mean = (\<lambda>w xs i. sum_list (take w (drop (i + 1 - w) xs)) / real w),
     f_div = (\<lambda>a b. a / b)\<rparr>"

text \<open>The largest active count among a country's rows.\<close>

definition country_max :: "row list \<Rightarrow> string \<Rightarrow> int" where
  "country_max last_day c = Max (set (map active (get_group country_region last_day c)))"

section \<open>Continent classification is total\<close>

lemma dict_get_continents_label: "dict_get continents code ''Others'' \<in> set continent_labels"
  by (simp add: dict_get_def continents_def continent_labels_def)

text \<open>
  C6. Whatever the two library resolvers do on a country name (return a string or
  raise), \<open>get_continent\<close> returns one of the six continent names or Others; a raise in
  either resolver, or a continent code outside the table, gives Others.
\<close>

theorem get_continent_total:
  "get_continent n2a a2c name \<in> set continent_labels
   \<and> (\<forall>e. n2a (dict_get corrections name name) = Inl e
          \<longrightarrow> get_continent n2a a2c name = ''Others'')
   \<and> (\<forall>a e. n2a (dict_get corrections name name) = Inr a \<longrightarrow> a2c a = Inl e
          \<longrightarrow> get_continent n2a a2c name = ''Others'')
   \<and> (\<forall>a c. n2a (dict_get corrections name name) = Inr a \<longrightarrow> a2c a = Inr c
          \<longrightarrow> map_of continents c = None \<longrightarrow> get_continent n2a a2c name = ''Others'')"
proof -
  have "get_continent n2a a2c name \<in> set continent_labels"
    unfolding get_continent_def
    using dict_get_continents_label
    by (auto simp: continent_labels_def split: sum.splits)
  moreover have "\<forall>e. n2a (dict_get corrections name name) = Inl e
      \<longrightarrow> get_continent n2a a2c name = ''Others''"
    by (simp add: get_continent_def)
  moreover have "\<forall>a e. n2a (dict_get corrections name name) = Inr a \<longrightarrow> a2c a = Inl e
      \<longrightarrow> get_continent n2a a2c name = ''Others''"
    by (simp add: get_continent_def)
  moreover have "\<forall>a c. n2a (dict_get corrections name name) = Inr a \<longrightarrow> a2c a = Inr c
      \<longrightarrow> map_of continents c = None \<longrightarrow> get_continent n2a a2c name = ''Others''"
    by (simp add: get_continent_def dict_get_def)
  ultimately show ?thesis by blast
qed

theorem get_continent_total_witness:
  "get_continent (\<lambda>n. Inl ResolverError) (\<lambda>a. Inl ResolverError) ''Atlantis'' = ''Others''
   \<and> get_continent (\<lambda>n. Inr ''ZZ'') (\<lambda>a. Inl ResolverError) ''Atlantis'' = ''Others''
   \<and> get_continent (\<lambda>n. Inr ''AQ'') (\<lambda>a. Inr ''AN'') ''Antarctica'' = ''Others''
   \<and> get_continent (\<lambda>n. if n = ''United States'' then Inr ''US'' else Inl ResolverError)
        (\<lambda>a. if a = ''US'' then Inr ''NA'' else Inl ResolverError) ''US'' = ''North America''"
  using get_continent_total [where ?n2a = "\<lambda>n. Inl ResolverError" and ?name = "''Atlantis''"
          and ?a2c = "\<lambda>a. Inl ResolverError"]
        get_continent_total [where ?n2a = "\<lambda>n. Inr ''ZZ''" and ?name = "''Atlantis''"
          and ?a2c = "\<lambda>a. Inl ResolverError"]
        get_continent_total [where ?n2a = "\<lambda>n. Inr ''AQ''" and ?name = "''Antarctica''"
          and ?a2c = "\<lambda>a. Inr ''AN''"]
  by (simp add: get_continent_def dict_get_def corrections_def continents_def)

section \<open>Filtering\<close>

text \<open>
  C8. Filtering is idempotent: filtering an already filtered table by the same selection
  (date range, continents, countries) gives the table that one pass gives.
\<close>

theorem df_filtered_idempotent:
  "df_filtered sel (df_filtered sel df) = df_filtered sel df"
  by (auto simp add: df_filtered_def Let_def intro!: filter_cong)

section \<open>Positions, int64 sums and rolling means\<close>

lemma iloc_first: "xs \<noteq> [] \<Longrightarrow> iloc xs 0 = Inr (hd xs)"
  by (simp add: iloc_def hd_conv_nth)

lemma iloc_last: "xs \<noteq> [] \<Longrightarrow> iloc xs (- 1) = Inr (last xs)"
proof -
  assume ne: "xs \<noteq> []"
  then have len: "Suc 0 \<le> length xs" by (cases xs) simp_all
  then have "nat (int (length xs) + - 1) = length xs - 1" by linarith
  with ne len show ?thesis
    by (simp add: iloc_def last_conv_nth)
qed

lemma iloc_back: "0 < k \<Longrightarrow> k \<le> length xs \<Longrightarrow> iloc xs (- int k) = Inr (xs ! (length xs - k))"
proof -
  assume k: "0 < k" "k \<le> length xs"
  then have "nat (int (length xs) + - int k) = length xs - k" by linarith
  with k show ?thesis by (simp add: iloc_def)
qed



lemma length_diff [simp]: "length (diff fp cs) = length cs"
  by (cases cs) simp_all

lemma length_new_cases [simp]: "length (new_cases fp cs) = length cs"
  by (simp add: new_cases_def fillna_def)

lemma length_avg_7d [simp]: "length (avg_7d fp cs) = length cs"
  by (simp add: avg_7d_def rolling_mean_def)

lemma new_cases_nth: "i < length cs \<Longrightarrow> new_cases fp cs ! i = daily_new fp cs i"
proof (cases cs)
  case Nil
  assume "i < length cs"
  with Nil show ?thesis by simp
next
  case (Cons x xs)
  assume i: "i < length cs"
  show ?thesis
  proof (cases i)
    case 0
    with Cons show ?thesis by (simp add: new_cases_def fillna_def daily_new_def)
  next
    case (Suc j)
    with i Cons have j: "j < length xs" by simp
    with Cons Suc show ?thesis
      by (simp add: new_cases_def fillna_def daily_new_def)
  qed
qed

lemma new_cases_daily_new: "new_cases fp cs = map (daily_new fp cs) [0..<length cs]"
  by (rule nth_equalityI) (simp_all add: new_cases_nth)

lemma avg_7d_nth:
  "i < length cs \<Longrightarrow> 6 \<le> i \<Longrightarrow> avg_7d fp cs ! i = Some (week_mean fp cs i)"
  by (simp add: avg_7d_def rolling_mean_def week_mean_def new_cases_daily_new)

lemma growth_rate_total: "\<exists>g. growth_rate s e = Inr g"
  by (simp add: growth_rate_def truediv_def)

lemma rebound_ratio_Some:
  "rebound_ratio fp (Some c) (Some p) = Inr (Some (if p > 0 then f_div fp c p else 0))"
  by (simp add: rebound_ratio_def float_truediv_def)

lemma rebound_index_short: "length cs < 14 \<Longrightarrow> rebound_index fp cs = Inr NeedFourteenDays"
  by (simp add: rebound_index_def)

lemma rebound_index_long:
  assumes "14 \<le> length cs"
  shows "rebound_index fp cs
    = Inr (Rebound (Some (guarded_ratio fp cs)) (classify_rebound (Some (guarded_ratio fp cs))))"
proof -
  have c: "iloc (avg_7d fp cs) (- 1) = Inr (Some (week_mean fp cs (length cs - 1)))"
    using assms iloc_back [of 1 "avg_7d fp cs"] avg_7d_nth [of "length cs - 1" cs fp] by simp
  have p: "iloc (avg_7d fp cs) (- 8) = Inr (Some (week_mean fp cs (length cs - 8)))"
    using assms iloc_back [of 8 "avg_7d fp cs"] avg_7d_nth [of "length cs - 8" cs fp] by simp
  show ?thesis
    using assms by (simp add: rebound_index_def c p rebound_ratio_Some guarded_ratio_def)
qed

lemma rebound_index_total: "\<exists>rb. rebound_index fp cs = Inr rb"
proof (cases "14 \<le> length cs")
  case True
  then show ?thesis by (simp add: rebound_index_long)
next
  case False
  then show ?thesis by (simp add: rebound_index_def)
qed

lemma conclusions_short: "length tline \<le> 1 \<Longrightarrow> conclusions fp tline = Inr InsufficientData"
  by (simp add: conclusions_def)

lemma conclusions_long:
  assumes "2 \<le> length tline"
  shows "\<exists>g rb. growth_rate (tl_confirmed (hd tline)) (tl_confirmed (last tline)) = Inr g
          \<and> rebound_index fp (map tl_confirmed tline) = Inr rb
          \<and> conclusions fp tline
              = Inr (Conclusion g (tl_confirmed (hd tline)) (tl_confirmed (last tline)) rb)"
proof -
  from assms have ne: "tline \<noteq> []" by auto
  obtain g where g: "growth_rate (tl_confirmed (hd tline)) (tl_confirmed (last tline)) = Inr g"
    using growth_rate_total by blast
  obtain rb where rb: "rebound_index fp (map tl_confirmed tline) = Inr rb"
    using rebound_index_total by blast
  have "conclusions fp tline
      = Inr (Conclusion g (tl_confirmed (hd tline)) (tl_confirmed (last tline)) rb)"
    using assms ne by (simp add: conclusions_def iloc_first iloc_last g rb)
  with g rb show ?thesis by blast
qed



lemma timeline_length: "length (timeline filtered) = card (file_date ` set filtered)"
proof -
  have "length (timeline filtered) = length (remdups (map file_date filtered))"
    by (simp add: timeline_def groupby_keys_def)
  also have "\<dots> = card (set (map file_date filtered))"
    by (simp add: length_remdups_card_conv)
  finally show ?thesis by simp
qed


lemma float64_above_1_2:
  assumes "is_float64 q"
  shows "(q > py_float_1_2) = (q > 12 / 10)"
proof
  assume "q > 12 / 10"
  then show "q > py_float_1_2" by (simp add: py_float_1_2_def)
next
  assume gt: "q > py_float_1_2"
  show "q > 12 / 10"
  proof (rule ccontr)
    assume "\<not> q > 12 / 10"
    then have le: "q \<le> 12 / 10" by simp
    from assms obtain m :: int and a b :: nat
      where m: "\<bar>m\<bar> < 2 ^ 53" and q: "q = real_of_int m * 2 ^ a / 2 ^ b"
      unfolding is_float64_def by blast
    from gt have q1: "1 < q" by (simp add: py_float_1_2_def)
    have mpos: "0 < m"
    proof (rule ccontr)
      assume "\<not> 0 < m"
      then have "real_of_int m \<le> 0" by simp
      then have "real_of_int m * 2 ^ a / 2 ^ b \<le> 0"
        by (simp add: divide_nonpos_pos mult_nonpos_nonneg)
      with q q1 show False by simp
    qed
    have b_le: "b \<le> a + 52"
    proof (rule ccontr)
      assume "\<not> b \<le> a + 52"
      then have "a + 53 \<le> b" by simp
      then have "(2::real) ^ (a + 53) \<le> 2 ^ b" by simp
      moreover from m have "m < 2 ^ 53" by simp
      then have "real_of_int m < real_of_int (2 ^ 53)" by (simp only: of_int_less_iff)
      then have "real_of_int m < 2 ^ 53" by simp
      then have "real_of_int m * 2 ^ a < 2 ^ 53 * 2 ^ a" by simp
      then have "real_of_int m * 2 ^ a < 2 ^ (a + 53)" by (simp add: power_add)
      ultimately have "real_of_int m * 2 ^ a < 2 ^ b" by linarith
      then have "q < 1" using q by simp
      with q1 show False by simp
    qed
    define k where "k = m * 2 ^ (a + 52 - b)"
    have "(2::real) ^ (a + 52) = 2 ^ (a + 52 - b) * 2 ^ b"
      using b_le by (simp add: power_add [symmetric])
    then have "q * 2 ^ 52 = real_of_int m * 2 ^ (a + 52 - b)"
      unfolding q by (simp add: power_add field_simps)
    then have k: "q * 2 ^ 52 = real_of_int k" by (simp add: k_def)
    from gt have "5404319552844595 < q * 2 ^ 52" by (simp add: py_float_1_2_def field_simps)
    with k have "5404319552844595 < k" by linarith
    then have "5404319552844596 \<le> k" by simp
    then have "5404319552844596 \<le> real_of_int k" by linarith
    moreover from le have "q * 2 ^ 52 \<le> 12 / 10 * 2 ^ 52" by simp
    ultimately show False using k by simp
  qed
qed

section \<open>KPI totals and fatality rate\<close>






section \<open>Growth rate\<close>




section \<open>Rebound index\<close>

text \<open>
  C3, as amended. With at least 14 timeline points the rebound ratio is the library's
  7-day rolling mean of new cases at the last position divided by the one eight positions
  from the end when that divisor is positive, and 0 when the divisor is zero or negative.
  The verdict is rebound alert iff the ratio exceeds the float64 value of the literal 1.2,
  upward trend iff it lies above 1.0 and not above that value, and stable or declining
  iff ratio \<le> 1.0; for a ratio that is a float64 value this is ratio > 1.2,
  1.0 < ratio \<le> 1.2 and ratio \<le> 1.0. This holds for every float64 arithmetic of the
  library. The instance has seven new cases a day in the first week and twelve in the
  second: all its intermediate values are integers, the means are 6 and 12, the ratio 2.
\<close>

theorem rebound_ratio_guarded:
  assumes "14 \<le> length cs"
  shows "rebound_index fp cs
      = Inr (Rebound (Some (guarded_ratio fp cs)) (classify_rebound (Some (guarded_ratio fp cs))))
    \<and> (classify_rebound (Some (guarded_ratio fp cs)) = ReboundAlert)
        = (guarded_ratio fp cs > py_float_1_2)
    \<and> (classify_rebound (Some (guarded_ratio fp cs)) = UpwardTrend)
        = (1 < guarded_ratio fp cs \<and> guarded_ratio fp cs \<le> py_float_1_2)
    \<and> (classify_rebound (Some (guarded_ratio fp cs)) = StableOrDeclining)
        = (guarded_ratio fp cs \<le> 1)
    \<and> (is_float64 (guarded_ratio fp cs) \<longrightarrow>
          (classify_rebound (Some (guarded_ratio fp cs)) = ReboundAlert)
            = (guarded_ratio fp cs > 1.2)
          \<and> (classify_rebound (Some (guarded_ratio fp cs)) = UpwardTrend)
            = (1.0 < guarded_ratio fp cs \<and> guarded_ratio fp cs \<le> 1.2)
          \<and> (classify_rebound (Some (guarded_ratio fp cs)) = StableOrDeclining)
            = (guarded_ratio fp cs \<le> 1.0))"
proof -
  have a: "rebound_index fp cs
      = Inr (Rebound (Some (guarded_ratio fp cs)) (classify_rebound (Some (guarded_ratio fp cs))))"
    using assms by (rule rebound_index_long)
  have one: "1 < py_float_1_2" by (simp add: py_float_1_2_def)
  have b: "(classify_rebound (Some q) = ReboundAlert) = (q > py_float_1_2)"
          "(classify_rebound (Some q) = UpwardTrend) = (1 < q \<and> q \<le> py_float_1_2)"
          "(classify_rebound (Some q) = StableOrDeclining) = (q \<le> 1)" for q
    using one by (auto simp: classify_rebound_def)
  have c: "(q > py_float_1_2) = (q > 1.2)" if "is_float64 q" for q
    using float64_above_1_2 [OF that] by simp
  from a b c show ?thesis by (simp add: not_less [symmetric])
qed

theorem rebound_ratio_guarded_witness:
  "14 \<le> length [0, 7, 14, 21, 28, 35, 42, 54, 66, 78, 90, 102, 114, 126 :: int]
   \<and> is_float64 2
   \<and> rebound_index exact_ops [0, 7, 14, 21, 28, 35, 42, 54, 66, 78, 90, 102, 114, 126]
      = Inr (Rebound (Some 2) ReboundAlert)"
proof -
  have "(2::real) = real_of_int 2 * 2 ^ 0 / 2 ^ 0" by simp
  moreover have "\<bar>2::int\<bar> < 2 ^ 53" by simp
  ultimately have f: "is_float64 2" unfolding is_float64_def by blast
  have r: "guarded_ratio exact_ops [0, 7, 14, 21, 28, 35, 42, 54, 66, 78, 90, 102, 114, 126] = 2"
    by (simp add: guarded_ratio_def week_mean_def daily_new_def exact_ops_def)
  from rebound_ratio_guarded [of "[0, 7, 14, 21, 28, 35, 42, 54, 66, 78, 90, 102, 114, 126]" exact_ops]
  show ?thesis unfolding r using f by simp
qed

text \<open>
  C3 as stated fails on a falling timeline: the confirmed totals 198, 191, ..., 107 fall
  by seven a day, so all intermediate values are integers and float64 arithmetic is
  exact on them. The 7-day means are -7 at the last position and -6 eight positions from
  the end. The divisor is not zero and the quotient is 7/6, an upward trend; the script
  gives ratio 0, stable or declining.
\<close>

theorem rebound_ratio_negative_denominator:
  "iloc (avg_7d exact_ops [198, 191, 184, 177, 170, 163, 156, 149, 142, 135, 128, 121, 114, 107])
      (- 1) = Inr (Some (- 7))
   \<and> iloc (avg_7d exact_ops [198, 191, 184, 177, 170, 163, 156, 149, 142, 135, 128, 121, 114, 107])
      (- 8) = Inr (Some (- 6))
   \<and> rebound_index exact_ops [198, 191, 184, 177, 170, 163, 156, 149, 142, 135, 128, 121, 114, 107]
      = Inr (Rebound (Some 0) StableOrDeclining)
   \<and> rebound_index exact_ops [198, 191, 184, 177, 170, 163, 156, 149, 142, 135, 128, 121, 114, 107]
      \<noteq> Inr (Rebound (Some ((- 7) / (- 6))) UpwardTrend)"
  by (simp add: rebound_index_def avg_7d_def rolling_mean_def new_cases_def fillna_def iloc_def
        rebound_ratio_def classify_rebound_def exact_ops_def py_float_1_2_def)

text \<open>
  C7. A rebound ratio and verdict are part of the conclusion exactly when the timeline
  has at least 14 points. With fewer points the conclusion is one of the two messages
  that ask for more data, and no ratio is computed.
\<close>

theorem rebound_needs_fourteen_points:
  "(length tline < 14 \<longrightarrow>
      conclusions fp tline = Inr InsufficientData
      \<or> (\<exists>g s e. conclusions fp tline = Inr (Conclusion g s e NeedFourteenDays)))
   \<and> (14 \<le> length tline \<longrightarrow>
      (\<exists>g s e q v. conclusions fp tline = Inr (Conclusion g s e (Rebound (Some q) v))))"
proof (intro conjI impI)
  assume short: "length tline < 14"
  show "conclusions fp tline = Inr InsufficientData
      \<or> (\<exists>g s e. conclusions fp tline = Inr (Conclusion g s e NeedFourteenDays))"
  proof (cases "2 \<le> length tline")
    case True
    from conclusions_long [OF True, of fp] short show ?thesis
      by (auto simp: rebound_index_short)
  next
    case False
    then show ?thesis by (simp add: conclusions_short)
  qed
next
  assume long: "14 \<le> length tline"
  then have "2 \<le> length tline" by simp
  from conclusions_long [OF this, of fp] long
  show "\<exists>g s e q v. conclusions fp tline = Inr (Conclusion g s e (Rebound (Some q) v))"
    by (auto simp: rebound_index_long)
qed

theorem rebound_needs_fourteen_points_witness:
  "length (map (\<lambda>d. \<lparr>tl_file_date = d, tl_confirmed = 5, tl_deaths = 0,
                       tl_recovered = 0, tl_active = 5\<rparr>) [0, 1, 2]) < 14
   \<and> conclusions exact_ops
        (map (\<lambda>d. \<lparr>tl_file_date = d, tl_confirmed = 5, tl_deaths = 0,
                       tl_recovered = 0, tl_active = 5\<rparr>) [0, 1, 2])
      = Inr (Conclusion 0 5 5 NeedFourteenDays)
   \<and> 14 \<le> length (map (\<lambda>d. \<lparr>tl_file_date = d, tl_confirmed = 5, tl_deaths = 0,
                       tl_recovered = 0, tl_active = 5\<rparr>)
                  [0, 1, 2, 3, 4, 5, 6, 7, 8, 9, 10, 11, 12, 13])
   \<and> conclusions exact_ops
        (map (\<lambda>d. \<lparr>tl_file_date = d, tl_confirmed = 5, tl_deaths = 0,
                       tl_recovered = 0, tl_active = 5\<rparr>)
             [0, 1, 2, 3, 4, 5, 6, 7, 8, 9, 10, 11, 12, 13])
      = Inr (Conclusion 0 5 5 (Rebound (Some 0) StableOrDeclining))"
  using rebound_needs_fourteen_points
          [of "map (\<lambda>d. \<lparr>tl_file_date = d, tl_confirmed = 5, tl_deaths = 0,
                       tl_recovered = 0, tl_active = 5\<rparr>) [0, 1, 2]" exact_ops]
        rebound_needs_fourteen_points
          [of "map (\<lambda>d. \<lparr>tl_file_date = d, tl_confirmed = 5, tl_deaths = 0,
                       tl_recovered = 0, tl_active = 5\<rparr>)
                   [0, 1, 2, 3, 4, 5, 6, 7, 8, 9, 10, 11, 12, 13]" exact_ops]
  by (simp add: conclusions_def iloc_def growth_rate_def truediv_def rebound_index_def
        avg_7d_def rolling_mean_def new_cases_def fillna_def rebound_ratio_def
        classify_rebound_def wrap64_def exact_ops_def py_float_1_2_def)

section \<open>A selection with no row on the end date\<close>

lemma app_no_last_day:
  "df_last_day sel (df_filtered sel df) = [] \<Longrightarrow> app fp sel df = Inl NameError"
  by (simp add: app_def Let_def kpi_confirmed_def kpi_deaths_def fatality_rate_def map_data_def
        country_totals_def apply_fix_coords_def)

lemma timeline_empty: "timeline filtered = [] \<Longrightarrow> filtered = []"
proof -
  assume "timeline filtered = []"
  then have "length (timeline filtered) = 0" by simp
  then have "card (file_date ` set filtered) = 0" by (simp add: timeline_length)
  then show ?thesis by simp
qed

lemma app_empty_timeline:
  "timeline (df_filtered sel df) = [] \<Longrightarrow> app fp sel df = Inl NameError"
proof -
  assume "timeline (df_filtered sel df) = []"
  then have "df_filtered sel df = []" by (rule timeline_empty)
  then have "df_last_day sel (df_filtered sel df) = []" by (simp add: df_last_day_def)
  then show ?thesis by (rule app_no_last_day)
qed

text \<open>
  C1. Country A has its only row on day 0 and country B on day 1. Selecting country A
  and the date range from day 1 to day 1 leaves no row. The assignment of line 170 then
  reads \<open>country_totals\<close>, which line 151 never bound, and the run ends with a NameError
  before the map, the conclusions and the ranking are drawn.
\<close>

theorem app_empty_selection_raises:
  "df_filtered \<lparr>selected_continents = [], selected_countries = [''A''], start_date = 1, end_date = 1\<rparr>
     [\<lparr>country_region = ''A'', file_date = 0, confirmed = 5, deaths = 0,
        recovered = 0, active = 5, lat = None, long_col = None, Continent = ''Others''\<rparr>,
      \<lparr>country_region = ''B'', file_date = 86400000000000, confirmed = 7, deaths = 0,
        recovered = 0, active = 7, lat = None, long_col = None, Continent = ''Others''\<rparr>] = []
   \<and> app fp \<lparr>selected_continents = [], selected_countries = [''A''], start_date = 1, end_date = 1\<rparr>
     [\<lparr>country_region = ''A'', file_date = 0, confirmed = 5, deaths = 0,
        recovered = 0, active = 5, lat = None, long_col = None, Continent = ''Others''\<rparr>,
      \<lparr>country_region = ''B'', file_date = 86400000000000, confirmed = 7, deaths = 0,
        recovered = 0, active = 7, lat = None, long_col = None, Continent = ''Others''\<rparr>] = Inl NameError"
  by (simp add: app_def df_filtered_def df_last_day_def dt_date_def isin_def kpi_confirmed_def
        kpi_deaths_def fatality_rate_def map_data_def country_totals_def apply_fix_coords_def)

text \<open>
  C10. The block of lines 192-231 answers a timeline of fewer than two rows with the
  sentence that the data is insufficient, but the run does not reach it when the end
  date has no row: line 170 raises first. A table with rows on day 0 and day 2 and the
  date range from day 1 to day 1 has an empty timeline, and the run ends with a
  NameError. So does the run on the table of C1 with country A and the range from day 0
  to day 1, whose timeline has the single row of day 0.
\<close>

theorem app_short_timeline_raises:
  "timeline (df_filtered \<lparr>selected_continents = [], selected_countries = [], start_date = 1, end_date = 1\<rparr>
     [\<lparr>country_region = ''A'', file_date = 0, confirmed = 5, deaths = 0,
        recovered = 0, active = 5, lat = None, long_col = None, Continent = ''Others''\<rparr>,
      \<lparr>country_region = ''A'', file_date = 172800000000000, confirmed = 7, deaths = 0,
        recovered = 0, active = 7, lat = None, long_col = None, Continent = ''Others''\<rparr>]) = []
   \<and> conclusions fp [] = Inr InsufficientData
   \<and> app fp \<lparr>selected_continents = [], selected_countries = [], start_date = 1, end_date = 1\<rparr>
     [\<lparr>country_region = ''A'', file_date = 0, confirmed = 5, deaths = 0,
        recovered = 0, active = 5, lat = None, long_col = None, Continent = ''Others''\<rparr>,
      \<lparr>country_region = ''A'', file_date = 172800000000000, confirmed = 7, deaths = 0,
        recovered = 0, active = 7, lat = None, long_col = None, Continent = ''Others''\<rparr>] = Inl NameError
   \<and> length (timeline (df_filtered \<lparr>selected_continents = [], selected_countries = [''A''], start_date = 0, end_date = 1\<rparr>
     [\<lparr>country_region = ''A'', file_date = 0, confirmed = 5, deaths = 0,
        recovered = 0, active = 5, lat = None, long_col = None, Continent = ''Others''\<rparr>,
      \<lparr>country_region = ''B'', file_date = 86400000000000, confirmed = 7, deaths = 0,
        recovered = 0, active = 7, lat = None, long_col = None, Continent = ''Others''\<rparr>])) = 1
   \<and> app fp \<lparr>selected_continents = [], selected_countries = [''A''], start_date = 0, end_date = 1\<rparr>
     [\<lparr>country_region = ''A'', file_date = 0, confirmed = 5, deaths = 0,
        recovered = 0, active = 5, lat = None, long_col = None, Continent = ''Others''\<rparr>,
      \<lparr>country_region = ''B'', file_date = 86400000000000, confirmed = 7, deaths = 0,
        recovered = 0, active = 7, lat = None, long_col = None, Continent = ''Others''\<rparr>] = Inl NameError"
  by (simp add: app_def df_filtered_def df_last_day_def dt_date_def isin_def kpi_confirmed_def
        kpi_deaths_def fatality_rate_def map_data_def country_totals_def apply_fix_coords_def
        timeline_def groupby_keys_def conclusions_def)

section \<open>Descending sort and grouping\<close>

lemma agg_max_Max: "xs \<noteq> [] \<Longrightarrow> agg_max xs = Max (set xs)"
proof (cases xs)
  case Nil
  assume "xs \<noteq> []"
  with Nil show ?thesis by simp
next
  case (Cons a list)
  show ?thesis
    unfolding agg_max_def Cons list.sel by (rule Max.set_eq_fold [symmetric])
qed

lemma set_sort_values_desc [simp]: "set (sort_values_desc key xs) = set xs"
  by (simp add: sort_values_desc_def)

lemma length_sort_values_desc [simp]: "length (sort_values_desc key xs) = length xs"
  by (simp add: sort_values_desc_def)

lemma distinct_sort_values_desc [simp]: "distinct (sort_values_desc key xs) = distinct xs"
  by (simp add: sort_values_desc_def)

lemma sorted_sort_values_desc:
  "sorted_wrt (\<lambda>a b. key a \<ge> key b) (sort_values_desc key xs)"
proof -
  have "sorted (map key (sort_key key (rev xs)))" by simp
  then have "sorted_wrt (\<lambda>a b. key a \<le> key b) (sort_key key (rev xs))"
    by (simp add: sorted_map)
  then show ?thesis
    by (simp add: sort_values_desc_def sorted_wrt_rev)
qed

lemma sort_values_desc_head:
  assumes "xs \<noteq> []"
  shows "\<exists>b rest. sort_values_desc key xs = b # rest \<and> b \<in> set xs
           \<and> (\<forall>r\<in>set xs. key r \<le> key b)"
proof -
  from assms have "sort_values_desc key xs \<noteq> []"
    by (metis length_sort_values_desc length_0_conv)
  then obtain b rest where br: "sort_values_desc key xs = b # rest"
    by (cases "sort_values_desc key xs") auto
  have s: "set xs = insert b (set rest)"
    using set_sort_values_desc [of key xs] br by simp
  have "sorted_wrt (\<lambda>a b. key a \<ge> key b) (b # rest)"
    using sorted_sort_values_desc [of key xs] br by simp
  then have "\<forall>r\<in>set rest. key r \<le> key b" by simp
  with s br show ?thesis by auto
qed

lemma groupby_keys_set [simp]: "set (groupby_keys key df) = key ` set df"
  by (simp add: groupby_keys_def)

lemma groupby_keys_distinct [simp]: "distinct (groupby_keys key df)"
  by (simp add: groupby_keys_def)

lemma groupby_keys_length: "length (groupby_keys key df) = card (key ` set df)"
  by (metis groupby_keys_set groupby_keys_distinct distinct_card)

lemma get_group_nonempty: "c \<in> key ` set df \<Longrightarrow> get_group key df c \<noteq> []"
  by (auto simp: get_group_def filter_empty_conv)

lemma sorted_wrt_take_drop:
  assumes "sorted_wrt P xs" and "a \<in> set (take n xs)" and "b \<in> set (drop n xs)"
  shows "P a b"
proof -
  have "sorted_wrt P (take n xs @ drop n xs)" using assms(1) by simp
  then show ?thesis using assms(2,3) unfolding sorted_wrt_append by blast
qed

lemma ranked_set:
  "set (ranked last_day) = (\<lambda>c. (c, country_max last_day c)) ` country_region ` set last_day"
proof -
  have "agg_max (map active (get_group country_region last_day c)) = country_max last_day c"
    if "c \<in> country_region ` set last_day" for c
    using get_group_nonempty [OF that] by (simp add: country_max_def agg_max_Max)
  then show ?thesis
    by (auto simp: ranked_def image_iff)
qed

lemma ranked_keys_distinct: "distinct (map fst (ranked last_day))"
proof -
  let ?g = "map (\<lambda>c. (c, agg_max (map active (get_group country_region last_day c))))
                (groupby_keys country_region last_day)"
  have "distinct (map fst ?g)" by (simp add: comp_def)
  then have "distinct ?g \<and> inj_on fst (set ?g)"
    by (simp only: distinct_map)
  then have "distinct (sort_values_desc snd ?g) \<and> inj_on fst (set (sort_values_desc snd ?g))"
    by (simp only: distinct_sort_values_desc set_sort_values_desc)
  then show ?thesis
    unfolding ranked_def by (simp only: distinct_map)
qed

lemma ranked_length: "length (ranked last_day) = card (country_region ` set last_day)"
  by (simp add: ranked_def groupby_keys_length)

lemma ranked_sorted: "sorted_wrt (\<lambda>a b. snd a \<ge> snd b) (ranked last_day)"
  unfolding ranked_def by (rule sorted_sort_values_desc)

lemma top_active_ranked: "last_day \<noteq> [] \<Longrightarrow> top_active last_day = Some (take 10 (ranked last_day))"
  by (simp add: top_active_def)

section \<open>Ranking\<close>

text \<open>
  C9. When the end date has rows, the ranking lists each country at most once with the
  maximum of its \<open>active\<close> values on that date, in descending order of that value, and
  keeps the first 10 entries of that order (all of them when there are fewer than 10
  countries): no country left out has a larger value than a country kept. The instance
  has eleven countries, country A with the duplicate rows 5, 5, 9 ranked with 9.
\<close>

theorem top_active_max_top10:
  assumes "last_day \<noteq> []"
  shows "\<exists>ranking. top_active last_day = Some ranking
    \<and> length ranking = min 10 (card (country_region ` set last_day))
    \<and> distinct (map fst ranking)
    \<and> sorted_wrt (\<lambda>a b. snd a \<ge> snd b) ranking
    \<and> (\<forall>(c, v)\<in>set ranking. c \<in> country_region ` set last_day \<and> v = country_max last_day c)
    \<and> (\<forall>c\<in>country_region ` set last_day. c \<notin> fst ` set ranking \<longrightarrow>
          (\<forall>(c', v)\<in>set ranking. country_max last_day c \<le> v))"
proof -
  let ?r = "take 10 (ranked last_day)"
  have 1: "top_active last_day = Some ?r" using assms by (rule top_active_ranked)
  have 2: "length ?r = min 10 (card (country_region ` set last_day))"
    by (simp add: ranked_length min.commute)
  have 3: "distinct (map fst ?r)"
    using ranked_keys_distinct [of last_day] by (simp add: take_map [symmetric] distinct_take)
  have 4: "sorted_wrt (\<lambda>a b. snd a \<ge> snd b) ?r"
    using ranked_sorted [of last_day] by (rule sorted_wrt_take)
  have 5: "\<forall>(c, v)\<in>set ?r. c \<in> country_region ` set last_day \<and> v = country_max last_day c"
  proof -
    have "set ?r \<subseteq> set (ranked last_day)" by (rule set_take_subset)
    then show ?thesis unfolding ranked_set by auto
  qed
  have 6: "\<forall>c\<in>country_region ` set last_day. c \<notin> fst ` set ?r \<longrightarrow>
          (\<forall>(c', v)\<in>set ?r. country_max last_day c \<le> v)"
  proof (intro ballI impI)
    fix c p
    assume c: "c \<in> country_region ` set last_day" and out: "c \<notin> fst ` set ?r"
      and p: "p \<in> set ?r"
    from c have "(c, country_max last_day c) \<in> set (ranked last_day)"
      unfolding ranked_set by blast
    then have "(c, country_max last_day c)
        \<in> set (take 10 (ranked last_day)) \<union> set (drop 10 (ranked last_day))"
      by (metis set_append append_take_drop_id)
    moreover have "(c, country_max last_day c) \<notin> set (take 10 (ranked last_day))"
      using out by force
    ultimately have "(c, country_max last_day c) \<in> set (drop 10 (ranked last_day))"
      by blast
    from sorted_wrt_take_drop [OF ranked_sorted p this]
    show "case p of (c', v) \<Rightarrow> country_max last_day c \<le> v"
      by (cases p) simp
  qed
  from 1 2 3 4 5 6 show ?thesis by blast
qed

theorem top_active_max_top10_witness:
  "map (\<lambda>(c, a). \<lparr>country_region = c, file_date = 0, confirmed = a, deaths = 0,
                     recovered = 0, active = a, lat = None, long_col = None,
                     Continent = ''Others''\<rparr>)
        [(''K'', 20), (''A'', 5), (''B'', 1), (''C'', 12), (''A'', 5), (''D'', 13), (''E'', 14),
         (''F'', 15), (''A'', 9), (''G'', 16), (''H'', 17), (''I'', 18), (''J'', 19)] \<noteq> []
   \<and> top_active
       (map (\<lambda>(c, a). \<lparr>country_region = c, file_date = 0, confirmed = a, deaths = 0,
                     recovered = 0, active = a, lat = None, long_col = None,
                     Continent = ''Others''\<rparr>)
        [(''K'', 20), (''A'', 5), (''B'', 1), (''C'', 12), (''A'', 5), (''D'', 13), (''E'', 14),
         (''F'', 15), (''A'', 9), (''G'', 16), (''H'', 17), (''I'', 18), (''J'', 19)])
      = Some [(''K'', 20), (''J'', 19), (''I'', 18), (''H'', 17), (''G'', 16), (''F'', 15),
              (''E'', 14), (''D'', 13), (''C'', 12), (''A'', 9)]
   \<and> top_active
       (map (\<lambda>(c, a). \<lparr>country_region = c, file_date = 0, confirmed = a, deaths = 0,
                     recovered = 0, active = a, lat = None, long_col = None,
                     Continent = ''Others''\<rparr>)
        [(''A'', 5), (''A'', 5), (''A'', 9)])
      = Some [(''A'', 9)]"
proof -
  let ?T = "map (\<lambda>(c, a). \<lparr>country_region = c, file_date = 0, confirmed = a, deaths = 0,
                     recovered = 0, active = a, lat = None, long_col = None,
                     Continent = ''Others''\<rparr>)
        [(''K'', 20), (''A'', 5), (''B'', 1), (''C'', 12), (''A'', 5), (''D'', 13), (''E'', 14),
         (''F'', 15), (''A'', 9), (''G'', 16), (''H'', 17), (''I'', 18), (''J'', 19)]"
  let ?A = "map (\<lambda>(c, a). \<lparr>country_region = c, file_date = 0, confirmed = a, deaths = 0,
                     recovered = 0, active = a, lat = None, long_col = None,
                     Continent = ''Others''\<rparr>)
        [(''A'', 5), (''A'', 5), (''A'', 9)]"
  have ne: "?T \<noteq> []" and ne': "?A \<noteq> []" by simp_all
  have eleven: "top_active ?T
      = Some [(''K'', 20), (''J'', 19), (''I'', 18), (''H'', 17), (''G'', 16), (''F'', 15),
              (''E'', 14), (''D'', 13), (''C'', 12), (''A'', 9)]"
    by (simp add: top_active_def ranked_def groupby_keys_def get_group_def agg_max_def
          sort_values_desc_def)
  have one: "top_active ?A = Some [(''A'', 9)]"
    by (simp add: top_active_def ranked_def groupby_keys_def get_group_def agg_max_def
          sort_values_desc_def)
  from top_active_max_top10 [OF ne] top_active_max_top10 [OF ne'] ne eleven one
  show ?thesis by blast
qed

section \<open>Coordinates of the map view\<close>

lemma fix_coords_US:
  "ct_country_region row = ''US'' \<Longrightarrow> fix_coords last_day row = (Some 37.0902, Some (- 95.7129))"
  by (simp add: fix_coords_def COUNTRY_COORDS_def)

lemma fix_coords_best:
  assumes none: "map_of COUNTRY_COORDS (ct_country_region row) = None"
    and grp: "filter (\<lambda>r. country_region r = ct_country_region row) last_day \<noteq> []"
  shows "\<exists>best\<in>set last_day. country_region best = ct_country_region row
          \<and> (\<forall>r\<in>set last_day. country_region r = ct_country_region row
                \<longrightarrow> confirmed r \<le> confirmed best)
          \<and> fix_coords last_day row = (lat best, long_col best)"
proof -
  let ?g = "filter (\<lambda>r. country_region r = ct_country_region row) last_day"
  from sort_values_desc_head [OF grp, of confirmed]
  obtain b rest where b: "sort_values_desc confirmed ?g = b # rest" "b \<in> set ?g"
      "\<forall>r\<in>set ?g. confirmed r \<le> confirmed b"
    by blast
  have "fix_coords last_day row = (lat b, long_col b)"
    by (simp add: fix_coords_def none b(1))
  with b(2,3) show ?thesis by auto
qed

lemma fix_coords_single_best:
  assumes none: "map_of COUNTRY_COORDS (ct_country_region row) = None"
    and best: "best \<in> set last_day" "country_region best = ct_country_region row"
    and single: "\<forall>r\<in>set last_day. country_region r = ct_country_region row \<and> r \<noteq> best
                   \<longrightarrow> confirmed r < confirmed best"
  shows "fix_coords last_day row = (lat best, long_col best)"
proof -
  from best have "filter (\<lambda>r. country_region r = ct_country_region row) last_day \<noteq> []"
    by (auto simp: filter_empty_conv)
  from fix_coords_best [OF none this]
  obtain b where b: "b \<in> set last_day" "country_region b = ct_country_region row"
      "\<forall>r\<in>set last_day. country_region r = ct_country_region row \<longrightarrow> confirmed r \<le> confirmed b"
      "fix_coords last_day row = (lat b, long_col b)"
    by blast
  have "b = best"
  proof (rule ccontr)
    assume "b \<noteq> best"
    with single b(1,2) have "confirmed b < confirmed best" by blast
    moreover from b(3) best have "confirmed best \<le> confirmed b" by blast
    ultimately show False by simp
  qed
  with b(4) show ?thesis by simp
qed

lemma country_totals_keys:
  "last_day \<noteq> [] \<Longrightarrow>
   \<exists>ct. country_totals last_day = Some ct
        \<and> map ct_country_region ct = groupby_keys country_region last_day"
  by (simp add: country_totals_def Let_def comp_def)

lemma map_data_points:
  "country_totals last_day = Some ct \<Longrightarrow>
   map_data last_day = Inr (dropna (map (with_fixed_coords last_day) ct))"
  by (simp add: map_data_def apply_fix_coords_def)

lemma with_fixed_coords_country [simp]:
  "ct_country_region (with_fixed_coords last_day row) = ct_country_region row"
  by (simp add: with_fixed_coords_def)

lemma fix_coords_override:
  "map_of COUNTRY_COORDS (ct_country_region row) = Some (la, lo) \<Longrightarrow>
   fix_coords last_day row = (Some la, Some lo)"
  by (simp add: fix_coords_def)

lemma COUNTRY_COORDS_table:
  "map_of COUNTRY_COORDS ''France'' = Some (46.2276, 2.2137)
   \<and> map_of COUNTRY_COORDS ''United Kingdom'' = Some (55.3781, - 3.4360)
   \<and> map_of COUNTRY_COORDS ''Denmark'' = Some (56.2639, 9.5018)
   \<and> map_of COUNTRY_COORDS ''Netherlands'' = Some (52.1326, 5.2913)
   \<and> map_of COUNTRY_COORDS ''US'' = Some (37.0902, - 95.7129)
   \<and> map_of COUNTRY_COORDS ''United States'' = Some (37.0902, - 95.7129)"
  by (simp add: COUNTRY_COORDS_def)

lemma ranked_countries: "fst ` set (ranked last_day) = country_region ` set last_day"
  unfolding ranked_set by force

text \<open>
  C2. When the end date has rows, the map data has one entry per country with the
  coordinates of \<open>fix_coords\<close>, and exactly the entries with a missing coordinate are
  dropped. A country of the override table always gets the coordinates of the table,
  whatever coordinates its rows carry, and is on the map whenever it has a row; the
  table holds the six entries of the source, so that US gets (37.0902, -95.7129). A
  country outside the table gets the coordinates of its single highest-confirmed row of
  the end date. Coordinates play no part in the ranking and the KPIs: every country of
  the end date is ranked and every row is counted.
\<close>

theorem fix_coords_override_first:
  assumes "last_day \<noteq> []"
  shows "\<exists>ct md. country_totals last_day = Some ct
      \<and> map ct_country_region ct = groupby_keys country_region last_day
      \<and> map_data last_day = Inr md
      \<and> md = dropna (map (with_fixed_coords last_day) ct)
      \<and> (\<forall>row\<in>set ct. (with_fixed_coords last_day row \<in> set md)
            = (fst (fix_coords last_day row) \<noteq> None \<and> snd (fix_coords last_day row) \<noteq> None))
      \<and> (''US'' \<in> country_region ` set last_day \<longrightarrow>
           (\<exists>m\<in>set md. ct_country_region m = ''US''
               \<and> ct_lat m = Some 37.0902 \<and> ct_long m = Some (- 95.7129)))
      \<and> (\<forall>m\<in>set md. ct_country_region m = ''US'' \<longrightarrow>
            ct_lat m = Some 37.0902 \<and> ct_long m = Some (- 95.7129))
      \<and> (\<forall>row. ct_country_region row = ''US'' \<longrightarrow>
            fix_coords last_day row = (Some 37.0902, Some (- 95.7129)))
      \<and> (\<forall>row best. map_of COUNTRY_COORDS (ct_country_region row) = None
            \<and> best \<in> set last_day \<and> country_region best = ct_country_region row
            \<and> (\<forall>r\<in>set last_day. country_region r = ct_country_region row \<and> r \<noteq> best
                  \<longrightarrow> confirmed r < confirmed best)
            \<longrightarrow> fix_coords last_day row = (lat best, long_col best))
      \<and> (\<forall>row la lo. map_of COUNTRY_COORDS (ct_country_region row) = Some (la, lo)
            \<longrightarrow> fix_coords last_day row = (Some la, Some lo))
      \<and> (\<forall>c la lo. map_of COUNTRY_COORDS c = Some (la, lo)
            \<and> c \<in> country_region ` set last_day
            \<longrightarrow> (\<exists>m\<in>set md. ct_country_region m = c
                    \<and> ct_lat m = Some la \<and> ct_long m = Some lo))
      \<and> (\<forall>m\<in>set md. \<forall>la lo. map_of COUNTRY_COORDS (ct_country_region m) = Some (la, lo)
            \<longrightarrow> ct_lat m = Some la \<and> ct_long m = Some lo)
      \<and> map_of COUNTRY_COORDS ''France'' = Some (46.2276, 2.2137)
      \<and> map_of COUNTRY_COORDS ''United Kingdom'' = Some (55.3781, - 3.4360)
      \<and> map_of COUNTRY_COORDS ''Denmark'' = Some (56.2639, 9.5018)
      \<and> map_of COUNTRY_COORDS ''Netherlands'' = Some (52.1326, 5.2913)
      \<and> map_of COUNTRY_COORDS ''US'' = Some (37.0902, - 95.7129)
      \<and> map_of COUNTRY_COORDS ''United States'' = Some (37.0902, - 95.7129)
      \<and> fst ` set (ranked last_day) = country_region ` set last_day
      \<and> top_active last_day = Some (take 10 (ranked last_day))
      \<and> kpi_confirmed last_day = sum_int64 (map confirmed last_day)
      \<and> kpi_deaths last_day = sum_int64 (map deaths last_day)"
proof -
  from country_totals_keys [OF assms] obtain ct where
    ct: "country_totals last_day = Some ct"
        "map ct_country_region ct = groupby_keys country_region last_day"
    by blast
  let ?md = "dropna (map (with_fixed_coords last_day) ct)"
  have md: "map_data last_day = Inr ?md" using ct(1) by (rule map_data_points)
  have kept: "\<forall>row\<in>set ct. (with_fixed_coords last_day row \<in> set ?md)
            = (fst (fix_coords last_day row) \<noteq> None \<and> snd (fix_coords last_day row) \<noteq> None)"
    by (auto simp: dropna_def with_fixed_coords_def simp del: not_None_eq)
  have over_in: "\<exists>m\<in>set ?md. ct_country_region m = c \<and> ct_lat m = Some la \<and> ct_long m = Some lo"
    if "map_of COUNTRY_COORDS c = Some (la, lo)" and "c \<in> country_region ` set last_day"
    for c la lo
  proof -
    from that(2) have "c \<in> set (map ct_country_region ct)"
      unfolding ct(2) by simp
    then obtain row where row: "row \<in> set ct" "ct_country_region row = c" by auto
    let ?m = "with_fixed_coords last_day row"
    from that(1) row(2) have "map_of COUNTRY_COORDS (ct_country_region row) = Some (la, lo)"
      by simp
    from fix_coords_override [OF this, of last_day]
    have c: "ct_lat ?m = Some la \<and> ct_long ?m = Some lo"
      by (simp add: with_fixed_coords_def)
    then have "ct_lat ?m \<noteq> None \<and> ct_long ?m \<noteq> None"
      by (metis option.distinct(1))
    with row(1) have "?m \<in> set ?md" by (simp add: dropna_def)
    moreover note c
    moreover have "ct_country_region ?m = c" using row(2) by simp
    ultimately show ?thesis by blast
  qed
  have over_all: "\<forall>m\<in>set ?md. \<forall>la lo. map_of COUNTRY_COORDS (ct_country_region m) = Some (la, lo)
            \<longrightarrow> ct_lat m = Some la \<and> ct_long m = Some lo"
  proof (intro ballI allI impI)
    fix m la lo
    assume m: "m \<in> set ?md" "map_of COUNTRY_COORDS (ct_country_region m) = Some (la, lo)"
    then obtain row where row: "m = with_fixed_coords last_day row" by (auto simp: dropna_def)
    with m(2) have "map_of COUNTRY_COORDS (ct_country_region row) = Some (la, lo)" by simp
    from fix_coords_override [OF this, of last_day] row
    show "ct_lat m = Some la \<and> ct_long m = Some lo"
      by (simp add: with_fixed_coords_def)
  qed
  have us: "map_of COUNTRY_COORDS ''US'' = Some (37.0902, - 95.7129)"
    using COUNTRY_COORDS_table by blast
  have us_in: "''US'' \<in> country_region ` set last_day \<longrightarrow>
      (\<exists>m\<in>set ?md. ct_country_region m = ''US''
          \<and> ct_lat m = Some 37.0902 \<and> ct_long m = Some (- 95.7129))"
    using over_in [OF us] by blast
  have us_all: "\<forall>m\<in>set ?md. ct_country_region m = ''US'' \<longrightarrow>
            ct_lat m = Some 37.0902 \<and> ct_long m = Some (- 95.7129)"
    using over_all us by (metis (no_types, lifting))
  have us_fix: "\<forall>row. ct_country_region row = ''US'' \<longrightarrow>
            fix_coords last_day row = (Some 37.0902, Some (- 95.7129))"
    using fix_coords_US by blast
  have single: "\<forall>row best. map_of COUNTRY_COORDS (ct_country_region row) = None
            \<and> best \<in> set last_day \<and> country_region best = ct_country_region row
            \<and> (\<forall>r\<in>set last_day. country_region r = ct_country_region row \<and> r \<noteq> best
                  \<longrightarrow> confirmed r < confirmed best)
            \<longrightarrow> fix_coords last_day row = (lat best, long_col best)"
    using fix_coords_single_best by blast
  have over_fix: "\<forall>row la lo. map_of COUNTRY_COORDS (ct_country_region row) = Some (la, lo)
            \<longrightarrow> fix_coords last_day row = (Some la, Some lo)"
    using fix_coords_override by blast
  have over_in': "\<forall>c la lo. map_of COUNTRY_COORDS c = Some (la, lo)
            \<and> c \<in> country_region ` set last_day
            \<longrightarrow> (\<exists>m\<in>set ?md. ct_country_region m = c
                    \<and> ct_lat m = Some la \<and> ct_long m = Some lo)"
    using over_in by blast
  have rest: "fst ` set (ranked last_day) = country_region ` set last_day
      \<and> top_active last_day = Some (take 10 (ranked last_day))
      \<and> kpi_confirmed last_day = sum_int64 (map confirmed last_day)
      \<and> kpi_deaths last_day = sum_int64 (map deaths last_day)"
    using assms
    by (simp add: ranked_countries top_active_def kpi_confirmed_def kpi_deaths_def)
  have "country_totals last_day = Some ct
      \<and> map ct_country_region ct = groupby_keys country_region last_day
      \<and> map_data last_day = Inr ?md
      \<and> ?md = dropna (map (with_fixed_coords last_day) ct)"
    using ct md by simp
  with kept us_in us_all us_fix single over_fix over_in' over_all COUNTRY_COORDS_table rest
  show ?thesis
    by (intro exI [of _ ct] exI [of _ ?md]) (simp only: simp_thms)
qed

theorem fix_coords_override_first_witness:
  "[\<lparr>country_region = ''US'', file_date = 0, confirmed = 50, deaths = 0,
        recovered = 0, active = 50, lat = Some (10), long_col = Some (20), Continent = ''Others''\<rparr>,
      \<lparr>country_region = ''Chile'', file_date = 0, confirmed = 5, deaths = 0,
        recovered = 0, active = 5, lat = Some (1), long_col = Some (2), Continent = ''Others''\<rparr>,
      \<lparr>country_region = ''France'', file_date = 0, confirmed = 20, deaths = 0,
        recovered = 0, active = 20, lat = Some (3), long_col = Some (4), Continent = ''Others''\<rparr>,
      \<lparr>country_region = ''Atlantis'', file_date = 0, confirmed = 4, deaths = 0,
        recovered = 0, active = 4, lat = None, long_col = None, Continent = ''Others''\<rparr>,
      \<lparr>country_region = ''Chile'', file_date = 0, confirmed = 9, deaths = 0,
        recovered = 0, active = 9, lat = Some (- 33.4), long_col = Some (- 70.6), Continent = ''Others''\<rparr>] \<noteq> []
   \<and> map_data
     [\<lparr>country_region = ''US'', file_date = 0, confirmed = 50, deaths = 0,
        recovered = 0, active = 50, lat = Some (10), long_col = Some (20), Continent = ''Others''\<rparr>,
      \<lparr>country_region = ''Chile'', file_date = 0, confirmed = 5, deaths = 0,
        recovered = 0, active = 5, lat = Some (1), long_col = Some (2), Continent = ''Others''\<rparr>,
      \<lparr>country_region = ''France'', file_date = 0, confirmed = 20, deaths = 0,
        recovered = 0, active = 20, lat = Some (3), long_col = Some (4), Continent = ''Others''\<rparr>,
      \<lparr>country_region = ''Atlantis'', file_date = 0, confirmed = 4, deaths = 0,
        recovered = 0, active = 4, lat = None, long_col = None, Continent = ''Others''\<rparr>,
      \<lparr>country_region = ''Chile'', file_date = 0, confirmed = 9, deaths = 0,
        recovered = 0, active = 9, lat = Some (- 33.4), long_col = Some (- 70.6), Continent = ''Others''\<rparr>]
     = Inr [\<lparr>ct_country_region = ''Chile'', ct_confirmed = 14,
        ct_lat = Some (- 33.4), ct_long = Some (- 70.6)\<rparr>,
      \<lparr>ct_country_region = ''France'', ct_confirmed = 20,
        ct_lat = Some 46.2276, ct_long = Some 2.2137\<rparr>,
      \<lparr>ct_country_region = ''US'', ct_confirmed = 50,
        ct_lat = Some 37.0902, ct_long = Some (- 95.7129)\<rparr>]
   \<and> kpi_confirmed
     [\<lparr>country_region = ''US'', file_date = 0, confirmed = 50, deaths = 0,
        recovered = 0, active = 50, lat = Some (10), long_col = Some (20), Continent = ''Others''\<rparr>,
      \<lparr>country_region = ''Chile'', file_date = 0, confirmed = 5, deaths = 0,
        recovered = 0, active = 5, lat = Some (1), long_col = Some (2), Continent = ''Others''\<rparr>,
      \<lparr>country_region = ''France'', file_date = 0, confirmed = 20, deaths = 0,
        recovered = 0, active = 20, lat = Some (3), long_col = Some (4), Continent = ''Others''\<rparr>,
      \<lparr>country_region = ''Atlantis'', file_date = 0, confirmed = 4, deaths = 0,
        recovered = 0, active = 4, lat = None, long_col = None, Continent = ''Others''\<rparr>,
      \<lparr>country_region = ''Chile'', file_date = 0, confirmed = 9, deaths = 0,
        recovered = 0, active = 9, lat = Some (- 33.4), long_col = Some (- 70.6), Continent = ''Others''\<rparr>] = 88
   \<and> top_active
     [\<lparr>country_region = ''US'', file_date = 0, confirmed = 50, deaths = 0,
        recovered = 0, active = 50, lat = Some (10), long_col = Some (20), Continent = ''Others''\<rparr>,
      \<lparr>country_region = ''Chile'', file_date = 0, confirmed = 5, deaths = 0,
        recovered = 0, active = 5, lat = Some (1), long_col = Some (2), Continent = ''Others''\<rparr>,
      \<lparr>country_region = ''France'', file_date = 0, confirmed = 20, deaths = 0,
        recovered = 0, active = 20, lat = Some (3), long_col = Some (4), Continent = ''Others''\<rparr>,
      \<lparr>country_region = ''Atlantis'', file_date = 0, confirmed = 4, deaths = 0,
        recovered = 0, active = 4, lat = None, long_col = None, Continent = ''Others''\<rparr>,
      \<lparr>country_region = ''Chile'', file_date = 0, confirmed = 9, deaths = 0,
        recovered = 0, active = 9, lat = Some (- 33.4), long_col = Some (- 70.6), Continent = ''Others''\<rparr>]
     = Some [(''US'', 50), (''France'', 20), (''Chile'', 9), (''Atlantis'', 4)]"
proof -
  let ?T = "[\<lparr>country_region = ''US'', file_date = 0, confirmed = 50, deaths = 0,
        recovered = 0, active = 50, lat = Some (10), long_col = Some (20), Continent = ''Others''\<rparr>,
      \<lparr>country_region = ''Chile'', file_date = 0, confirmed = 5, deaths = 0,
        recovered = 0, active = 5, lat = Some (1), long_col = Some (2), Continent = ''Others''\<rparr>,
      \<lparr>country_region = ''France'', file_date = 0, confirmed = 20, deaths = 0,
        recovered = 0, active = 20, lat = Some (3), long_col = Some (4), Continent = ''Others''\<rparr>,
      \<lparr>country_region = ''Atlantis'', file_date = 0, confirmed = 4, deaths = 0,
        recovered = 0, active = 4, lat = None, long_col = None, Continent = ''Others''\<rparr>,
      \<lparr>country_region = ''Chile'', file_date = 0, confirmed = 9, deaths = 0,
        recovered = 0, active = 9, lat = Some (- 33.4), long_col = Some (- 70.6), Continent = ''Others''\<rparr>]"
  have ne: "?T \<noteq> []" by simp
  have points: "map_data ?T = Inr [\<lparr>ct_country_region = ''Chile'', ct_confirmed = 14,
        ct_lat = Some (- 33.4), ct_long = Some (- 70.6)\<rparr>,
      \<lparr>ct_country_region = ''France'', ct_confirmed = 20,
        ct_lat = Some 46.2276, ct_long = Some 2.2137\<rparr>,
      \<lparr>ct_country_region = ''US'', ct_confirmed = 50,
        ct_lat = Some 37.0902, ct_long = Some (- 95.7129)\<rparr>]"
    by (simp add: map_data_def apply_fix_coords_def country_totals_def with_fixed_coords_def
          fix_coords_def COUNTRY_COORDS_def dropna_def groupby_keys_def get_group_def
          sort_values_desc_def sum_int64_def wrap64_def del: not_None_eq)
  have others: "kpi_confirmed ?T = 88
      \<and> top_active ?T = Some [(''US'', 50), (''France'', 20), (''Chile'', 9), (''Atlantis'', 4)]"
    by (simp add: groupby_keys_def get_group_def sort_values_desc_def kpi_confirmed_def
          top_active_def ranked_def agg_max_def sum_int64_def wrap64_def)
  from fix_coords_override_first [OF ne] ne points others show ?thesis
    by blast
qed

end
